theory Spec2Isabelle
  imports Main "HOL-Library.Word"
begin

unbundle bit_operations_syntax

section \<open>The ULP polling engine of reed\_rot\_btn.S\<close>

text \<open>
  The ULP coprocessor has four 16-bit registers and an 8-bit stage counter. Memory words
  hold 16 bits of data. \<open>jumpr\<close> compares R0 with an immediate as unsigned numbers,
  \<open>jumps\<close> compares the stage counter with an immediate.
\<close>

type_synonym u16 = "16 word"
type_synonym u8 = "8 word"

subsection \<open>Configuration (Kconfig)\<close>

record config =
  REED0_RTC_GPIO_NUM :: nat
  REED1_RTC_GPIO_NUM :: nat
  REED_DEBOUNCE_OUT :: bool
  AB_RTC_A_GPIO_NUM :: nat
  BTN_RTC_GPIO_MASK :: u16
  WAIT_REED_SET :: u16
  WAIT_ROT_SET :: u16
  WAIT_BTN_SET :: u16
  REED_DIV :: u8
  ROT_CNT_MAX :: nat

text \<open>
  The defaults of the component's Kconfig. \<open>ROT_CNT_MAX\<close> is declared by the top-level
  Kconfig only, with default 19; its help text reads: "The counter is wrapping around, so
  counting up from ROT_CNT_MAX yields 0". No instruction of the engine refers to it.
\<close>

definition default_config :: config where
  "default_config =
     \<lparr> REED0_RTC_GPIO_NUM = 0, REED1_RTC_GPIO_NUM = 9, REED_DEBOUNCE_OUT = False,
       AB_RTC_A_GPIO_NUM = 3, BTN_RTC_GPIO_MASK = 0x0120,
       WAIT_REED_SET = 10, WAIT_ROT_SET = 500, WAIT_BTN_SET = 300,
       REED_DIV = 5, ROT_CNT_MAX = 19 \<rparr>"

text \<open>The defaults with waits of 2 and a divisor of 2, for short runs.\<close>

definition quick_config :: config where
  "quick_config =
     default_config\<lparr>WAIT_REED_SET := 2, WAIT_ROT_SET := 2, WAIT_BTN_SET := 2, REED_DIV := 2\<rparr>"

text \<open>The ranges the Kconfig files allow.\<close>

definition config_ok :: "config \<Rightarrow> bool" where
  "config_ok cfg \<longleftrightarrow>
     REED0_RTC_GPIO_NUM cfg \<le> 14 \<and> REED1_RTC_GPIO_NUM cfg \<le> 14 \<and>
     AB_RTC_A_GPIO_NUM cfg \<le> 14 \<and>
     1 \<le> BTN_RTC_GPIO_MASK cfg \<and> BTN_RTC_GPIO_MASK cfg \<le> 0xfffc \<and>
     1 \<le> WAIT_REED_SET cfg \<and> 1 \<le> WAIT_ROT_SET cfg \<and> 1 \<le> WAIT_BTN_SET cfg \<and>
     1 \<le> REED_DIV cfg \<and>
     1 \<le> ROT_CNT_MAX cfg \<and> ROT_CNT_MAX cfg \<le> 65535"

definition REED_EVNT :: u16 where "REED_EVNT = 1"
definition ROT_EVNT :: u16 where "ROT_EVNT = 2"
definition BTN_EVNT :: u16 where "BTN_EVNT = 3"

definition IO_ROT_MASK :: "config \<Rightarrow> u16" where
  "IO_ROT_MASK cfg = push_bit (AB_RTC_A_GPIO_NUM cfg) 3"

definition IO_REED0_MASK :: "config \<Rightarrow> u16" where
  "IO_REED0_MASK cfg = push_bit (REED0_RTC_GPIO_NUM cfg) 1"

definition IO_REED1_MASK :: "config \<Rightarrow> u16" where
  "IO_REED1_MASK cfg = push_bit (REED1_RTC_GPIO_NUM cfg) 1"

text \<open>The mask of the monitored IOs, applied to every sample.\<close>

definition io_mask :: "config \<Rightarrow> u16" where
  "io_mask cfg =
     IO_REED0_MASK cfg OR IO_REED1_MASK cfg OR IO_ROT_MASK cfg OR BTN_RTC_GPIO_MASK cfg"

subsection \<open>Memory, registers and visible effects\<close>

text \<open>The seven variables of the .bss section: three global, four local to the ULP.\<close>

datatype var = evnt | rot_cnt | btn | rot_tmp | wait_reed_cnt | wait_rot_cnt | wait_btn_cnt

text \<open>
  What the engine does that is visible outside its registers, in program order: a store
  to a variable, the \<open>wake\<close> instruction, and the write to the debounce monitor output.
\<close>

datatype effect = St var u16 | Wake | RtcOut bool

text \<open>
  Registers r0, r1 and r3 are temporaries within one pass of the loop; r2 (the previous
  sample) and the stage counter (the number of reed triggers) survive from pass to pass.
\<close>

record ulp_state =
  mem :: "var \<Rightarrow> u16"
  r2 :: u16
  stage_cnt :: u8
  log :: "effect list"

definition ld :: "var \<Rightarrow> ulp_state \<Rightarrow> u16" where
  "ld x s = mem s x"

definition store :: "var \<Rightarrow> u16 \<Rightarrow> ulp_state \<Rightarrow> ulp_state" where
  "store x v s = s\<lparr>mem := (mem s)(x := v), log := log s @ [St x v]\<rparr>"

definition wake :: "ulp_state \<Rightarrow> ulp_state" where
  "wake s = s\<lparr>log := log s @ [Wake]\<rparr>"

definition debounce_out :: "config \<Rightarrow> bool \<Rightarrow> ulp_state \<Rightarrow> ulp_state" where
  "debounce_out cfg b s =
     (if REED_DEBOUNCE_OUT cfg then s\<lparr>log := log s @ [RtcOut b]\<rparr> else s)"

text \<open>
  \<open>rsh\<close> with a 16-bit immediate shift amount. In \<open>rot_changed\<close> the amount is
  \<open>CONFIG_AB_RTC_A_GPIO_NUM - 2\<close>, which is negative for the IO numbers 0 and 1; as a
  16-bit immediate it shifts every bit of the register out.
\<close>

definition rsh :: "u16 \<Rightarrow> u16 \<Rightarrow> u16" where
  "rsh r imm = drop_bit (unat imm) r"

subsection \<open>The quadrature table\<close>

definition st_tbl :: "u16 list" where
  "st_tbl = [0, 1, 2, 0, 2, 0, 0, 1, 1, 0, 0, 2, 0, 2, 1, 0]"

text \<open>
  The table of section 4.1 of the specification, written from the specification's text,
  for comparison with \<open>st_tbl\<close>.
\<close>

definition spec_decode_tbl :: "u16 list" where
  "spec_decode_tbl = [0, 1, 2, 0, 2, 0, 0, 1, 1, 1, 0, 0, 2, 0, 2, 1]"

text \<open>The 4-bit index: current AB in bits 3 and 2, previous AB in bits 1 and 0.\<close>

definition rot_code :: "config \<Rightarrow> u16 \<Rightarrow> u16 \<Rightarrow> u16" where
  "rot_code cfg r1 prev =
     (rsh r1 (of_nat (AB_RTC_A_GPIO_NUM cfg) - 2) AND 0x000c) OR
     (rsh prev (of_nat (AB_RTC_A_GPIO_NUM cfg)) AND 0x0003)"

subsection \<open>Handlers of a changed sample\<close>

definition reed0_raising :: "config \<Rightarrow> u16 \<Rightarrow> ulp_state \<Rightarrow> ulp_state" where
  "reed0_raising cfg r1 s =
     (if 1 \<le> ld wait_reed_cnt s then s\<lparr>r2 := r1\<rparr>
      else
        let s1 = store wait_reed_cnt (WAIT_REED_SET cfg) s;
            s2 = debounce_out cfg True s1;
            s3 = s2\<lparr>stage_cnt := stage_cnt s2 + 1\<rparr>
        in if stage_cnt s3 < REED_DIV cfg then s3
           else (wake (store evnt REED_EVNT s3))\<lparr>stage_cnt := 0, r2 := r1\<rparr>)"

definition reed1_raising :: "u16 \<Rightarrow> ulp_state \<Rightarrow> ulp_state" where
  "reed1_raising r1 s =
     (if ld wait_reed_cnt s < 1 then s\<lparr>r2 := r1\<rparr>
      else (store wait_reed_cnt 1 s)\<lparr>r2 := r1\<rparr>)"

definition btn_raising :: "config \<Rightarrow> u16 \<Rightarrow> ulp_state \<Rightarrow> ulp_state" where
  "btn_raising cfg r1 s =
     (if 1 \<le> ld wait_btn_cnt s then s\<lparr>r2 := r1\<rparr>
      else
        let s1 = store btn (r1 AND BTN_RTC_GPIO_MASK cfg) s;
            s2 = store wait_btn_cnt (WAIT_BTN_SET cfg) s1;
            s3 = store evnt BTN_EVNT s2
        in (wake s3)\<lparr>r2 := r1\<rparr>)"

definition finalyze_rot :: "config \<Rightarrow> u16 \<Rightarrow> ulp_state \<Rightarrow> ulp_state" where
  "finalyze_rot cfg r1 s = (store wait_rot_cnt (WAIT_ROT_SET cfg) s)\<lparr>r2 := r1\<rparr>"

definition inc_rot :: "config \<Rightarrow> u16 \<Rightarrow> ulp_state \<Rightarrow> ulp_state" where
  "inc_rot cfg r1 s = finalyze_rot cfg r1 (store rot_cnt (ld rot_cnt s + 1) s)"

definition dec_rot :: "config \<Rightarrow> u16 \<Rightarrow> ulp_state \<Rightarrow> ulp_state" where
  "dec_rot cfg r1 s = finalyze_rot cfg r1 (store rot_cnt (ld rot_cnt s - 1) s)"

definition inc_rot_raise :: "config \<Rightarrow> u16 \<Rightarrow> ulp_state \<Rightarrow> ulp_state" where
  "inc_rot_raise cfg r1 s =
     (if ld rot_tmp s = 0x0b then inc_rot cfg r1 s else s\<lparr>r2 := r1\<rparr>)"

definition dec_rot_raise :: "config \<Rightarrow> u16 \<Rightarrow> ulp_state \<Rightarrow> ulp_state" where
  "dec_rot_raise cfg r1 s =
     (if ld rot_tmp s = 0x07 then dec_rot cfg r1 s else s\<lparr>r2 := r1\<rparr>)"

definition rot_changed :: "config \<Rightarrow> u16 \<Rightarrow> ulp_state \<Rightarrow> ulp_state" where
  "rot_changed cfg r1 s =
     (let r3 = rot_code cfg r1 (r2 s);
          s1 = store rot_tmp r3 s;
          r0 = st_tbl ! unat r3
      in if r0 = 1 then dec_rot_raise cfg r1 s1
         else if r0 = 2 then inc_rot_raise cfg r1 s1
         else s1\<lparr>r2 := r1\<rparr>)"

text \<open>
  The two tests of the dispatch at label \<open>change\<close>, with the changed bits in \<open>r3\<close> and
  the current sample in \<open>r1\<close>: \<open>and r0, r3, MASK; and r0, r0, r1; jumpr L, 1, ge\<close> for a
  raising edge and \<open>and r0, r3, MASK; jumpr L, 1, ge\<close> for any change.
\<close>

definition raising :: "u16 \<Rightarrow> u16 \<Rightarrow> u16 \<Rightarrow> bool" where
  "raising msk r1 r3 \<longleftrightarrow> 1 \<le> (r3 AND msk) AND r1"

definition changed :: "u16 \<Rightarrow> u16 \<Rightarrow> bool" where
  "changed msk r3 \<longleftrightarrow> 1 \<le> r3 AND msk"

text \<open>
  The end of the dispatch ("must be reed or btn falling"): the previous sample is updated
  first; a button change sets the button wait, a change of reed 1 does nothing, and what
  is left is reed 0 falling, which sets the reed wait.
\<close>

definition falling :: "config \<Rightarrow> u16 \<Rightarrow> u16 \<Rightarrow> ulp_state \<Rightarrow> ulp_state" where
  "falling cfg r1 r3 s =
     (let s1 = s\<lparr>r2 := r1\<rparr>
      in if changed (BTN_RTC_GPIO_MASK cfg) r3
         then store wait_btn_cnt (WAIT_BTN_SET cfg) s1
         else if changed (IO_REED1_MASK cfg) r3 then s1
         else store wait_reed_cnt (WAIT_REED_SET cfg) s1)"

text \<open>The dispatch at label \<open>change\<close>, in the order of the code.\<close>

definition change :: "config \<Rightarrow> u16 \<Rightarrow> u16 \<Rightarrow> ulp_state \<Rightarrow> ulp_state" where
  "change cfg r1 r3 s =
     (if raising (IO_REED0_MASK cfg) r1 r3 then reed0_raising cfg r1 s
      else if raising (IO_REED1_MASK cfg) r1 r3 then reed1_raising r1 s
      else if changed (IO_ROT_MASK cfg) r3 then rot_changed cfg r1 s
      else if raising (BTN_RTC_GPIO_MASK cfg) r1 r3 then btn_raising cfg r1 s
      else falling cfg r1 r3 s)"

subsection \<open>The wait phase of an unchanged sample\<close>

definition wait_rot :: "ulp_state \<Rightarrow> ulp_state" where
  "wait_rot s =
     (if ld wait_rot_cnt s < 1 then s
      else
        let r0 = ld wait_rot_cnt s - 1;
            s1 = store wait_rot_cnt r0 s
        in if 1 \<le> r0 then s1 else wake (store evnt ROT_EVNT s1))"

text \<open>
  After its store, \<open>wait_btn\<close> runs into \<open>wait_reed_end: jump loop_forever\<close>; the code
  at label \<open>wait_btn_end\<close> is never reached.
\<close>

definition wait_btn :: "ulp_state \<Rightarrow> ulp_state" where
  "wait_btn s =
     (if ld wait_btn_cnt s < 1 then wait_rot s
      else store wait_btn_cnt (ld wait_btn_cnt s - 1) s)"

definition no_change :: "config \<Rightarrow> ulp_state \<Rightarrow> ulp_state" where
  "no_change cfg s =
     (if ld wait_reed_cnt s < 1 then wait_btn s
      else
        let r0 = ld wait_reed_cnt s - 1;
            s1 = store wait_reed_cnt r0 s
        in if 1 \<le> r0 then s1 else debounce_out cfg False s1)"

subsection \<open>Entry and the loop\<close>

text \<open>
  \<open>entry\<close>: the .bss variables are zero, the first sample becomes the previous value and
  the stage counter is reset.
\<close>

definition entry :: "config \<Rightarrow> u16 \<Rightarrow> ulp_state" where
  "entry cfg io = \<lparr> mem = (\<lambda>_. 0), r2 = io AND io_mask cfg, stage_cnt = 0, log = [] \<rparr>"

text \<open>The masked sample, and the changed bits as the code computes them.\<close>

definition sample :: "config \<Rightarrow> u16 \<Rightarrow> u16" where
  "sample cfg io = io AND io_mask cfg"

definition changed_bits :: "u16 \<Rightarrow> u16 \<Rightarrow> u16" where
  "changed_bits r1 prev = (r1 OR prev) - (r1 AND prev)"

text \<open>One pass of \<open>loop_forever\<close> on the sample \<open>io\<close> read from the lower 16 RTC IOs.\<close>

definition loop_forever :: "config \<Rightarrow> u16 \<Rightarrow> ulp_state \<Rightarrow> ulp_state" where
  "loop_forever cfg io s =
     (let r1 = sample cfg io;
          r0 = changed_bits r1 (r2 s)
      in if r0 = 0 then no_change cfg s else change cfg r1 r0 s)"

text \<open>The loop on a finite sequence of samples, one per pass.\<close>

fun run :: "config \<Rightarrow> u16 list \<Rightarrow> ulp_state \<Rightarrow> ulp_state" where
  "run cfg [] s = s"
| "run cfg (io # ios) s = run cfg ios (loop_forever cfg io s)"

text \<open>The effects of one pass: what it appended to the log.\<close>

definition emitted :: "config \<Rightarrow> u16 \<Rightarrow> ulp_state \<Rightarrow> effect list" where
  "emitted cfg io s = drop (length (log s)) (log (loop_forever cfg io s))"

text \<open>Which handler a pass dispatches to, as tests on the sample and the state.\<close>

definition reed0_rises :: "config \<Rightarrow> u16 \<Rightarrow> ulp_state \<Rightarrow> bool" where
  "reed0_rises cfg io s \<longleftrightarrow>
     raising (IO_REED0_MASK cfg) (sample cfg io) (changed_bits (sample cfg io) (r2 s))"

definition reed1_rises :: "config \<Rightarrow> u16 \<Rightarrow> ulp_state \<Rightarrow> bool" where
  "reed1_rises cfg io s \<longleftrightarrow>
     raising (IO_REED1_MASK cfg) (sample cfg io) (changed_bits (sample cfg io) (r2 s))"

definition rot_changes :: "config \<Rightarrow> u16 \<Rightarrow> ulp_state \<Rightarrow> bool" where
  "rot_changes cfg io s \<longleftrightarrow>
     changed (IO_ROT_MASK cfg) (changed_bits (sample cfg io) (r2 s))"

definition btn_rises :: "config \<Rightarrow> u16 \<Rightarrow> ulp_state \<Rightarrow> bool" where
  "btn_rises cfg io s \<longleftrightarrow>
     raising (BTN_RTC_GPIO_MASK cfg) (sample cfg io) (changed_bits (sample cfg io) (r2 s))"

subsection \<open>Events of a pass and of a run\<close>

text \<open>
  A pass notifies the consumer of event \<open>e\<close> when its effects end with the store of \<open>e\<close>
  into \<open>evnt\<close> followed by \<open>wake\<close>.
\<close>

definition notified :: "u16 \<Rightarrow> effect list \<Rightarrow> bool" where
  "notified e out \<longleftrightarrow> take 2 (rev out) = [Wake, St evnt e]"

fun notifications :: "u16 \<Rightarrow> config \<Rightarrow> u16 list \<Rightarrow> ulp_state \<Rightarrow> nat" where
  "notifications e cfg [] s = 0"
| "notifications e cfg (io # ios) s =
     (if notified e (emitted cfg io s) then 1 else 0) +
     notifications e cfg ios (loop_forever cfg io s)"

text \<open>
  An accepted raising edge of reed 0: the pass reaches \<open>reed0_raising\<close> and the reed
  timer is not waiting.
\<close>

definition reed0_accepted :: "config \<Rightarrow> u16 \<Rightarrow> ulp_state \<Rightarrow> bool" where
  "reed0_accepted cfg io s \<longleftrightarrow> reed0_rises cfg io s \<and> ld wait_reed_cnt s < 1"

fun accepted_edges :: "config \<Rightarrow> u16 list \<Rightarrow> ulp_state \<Rightarrow> nat" where
  "accepted_edges cfg [] s = 0"
| "accepted_edges cfg (io # ios) s =
     (if reed0_accepted cfg io s then 1 else 0) +
     accepted_edges cfg ios (loop_forever cfg io s)"

text \<open>
  An accepted detent step: the pass reaches \<open>rot_changed\<close> and the code is 0x0B (+1) or
  0x07 (-1).
\<close>

definition detent_step :: "config \<Rightarrow> u16 \<Rightarrow> ulp_state \<Rightarrow> int" where
  "detent_step cfg io s =
     (if \<not> reed0_rises cfg io s \<and> \<not> reed1_rises cfg io s \<and> rot_changes cfg io s
      then (if rot_code cfg (sample cfg io) (r2 s) = 0x0B then 1
            else if rot_code cfg (sample cfg io) (r2 s) = 0x07 then - 1 else 0)
      else 0)"

fun net_rotation :: "config \<Rightarrow> u16 list \<Rightarrow> ulp_state \<Rightarrow> int" where
  "net_rotation cfg [] s = 0"
| "net_rotation cfg (io # ios) s =
     detent_step cfg io s + net_rotation cfg ios (loop_forever cfg io s)"

text \<open>
  The pass in which the rotary timer expires: the sample is unchanged, the reed and the
  button timer are not waiting, and the rotary timer is 1.
\<close>

definition rot_expires :: "config \<Rightarrow> u16 \<Rightarrow> ulp_state \<Rightarrow> bool" where
  "rot_expires cfg io s \<longleftrightarrow>
     sample cfg io = r2 s \<and> ld wait_reed_cnt s < 1 \<and> ld wait_btn_cnt s < 1 \<and>
     ld wait_rot_cnt s = 1"

text \<open>
  A pulse of reed 0 with the default waits: the contact closes (two samples, the second
  one moves the previous sample on), then opens and stays open until the wait set by the
  falling edge has run out.
\<close>

definition reed_pulse :: "u16 list" where
  "reed_pulse = [0x19, 0x19] @ replicate 11 0x18"

subsection \<open>The public header keypad\_rotdecode.h\<close>

definition EVNT_BTN_PRSS :: int where "EVNT_BTN_PRSS = 1"
definition EVNT_BTN_RELS :: int where "EVNT_BTN_RELS = 2"
definition EVNT_ROT :: int where "EVNT_ROT = 3"

subsection \<open>The blocking read of the consumer\<close>

text \<open>
  The result of \<open>key_rot_read\<close>: \<open>ESP_OK\<close> with the decoded event (the event code, the
  rotation counter, the button bitmask and the period), or \<open>ESP_ERR_TIMEOUT\<close>.
\<close>

record input_event =
  key_code :: u16
  key_rot :: u16
  key_btn :: u16
  key1_period :: int

datatype read_result = ESP_OK input_event | ESP_ERR_TIMEOUT

text \<open>
  Modelled from the spec: whether the notification of the engine reaches the waiting task
  before the timeout elapses. The header declares \<open>key_rot_read\<close> only; its implementation
  is not among the sources. \<open>arrival\<close> is the time after the call at which the engine
  raises its notification, \<open>None\<close> if it raises none.
\<close>

definition arrives_within :: "nat option \<Rightarrow> int \<Rightarrow> bool" where
  "arrives_within arrival timeout =
     (case arrival of None \<Rightarrow> False | Some t \<Rightarrow> int t < timeout)"

text \<open>
  Modelled from the spec: the body of \<open>key_rot_read\<close>, which the header declares and whose
  implementation is not among the sources. The call suspends until the engine raises a
  notification or the timeout elapses. On notification it reads the shared state, clears
  the event register and returns the decoded event; on timeout it returns the timeout
  result and changes nothing. The shared state is the memory of the three global
  variables \<open>evnt\<close>, \<open>rot_cnt\<close> and \<open>btn\<close>.
\<close>

definition key_rot_read ::
  "(var \<Rightarrow> u16) \<Rightarrow> nat option \<Rightarrow> int \<Rightarrow> int \<Rightarrow> read_result \<times> (var \<Rightarrow> u16)" where
  "key_rot_read shared arrival period timeout =
     (if arrives_within arrival timeout
      then (ESP_OK \<lparr> key_code = shared evnt, key_rot = shared rot_cnt,
                     key_btn = shared btn, key1_period = period \<rparr>,
            shared(evnt := 0))
      else (ESP_ERR_TIMEOUT, shared))"

section \<open>Basic facts\<close>

lemma configs_ok: "config_ok default_config \<and> config_ok quick_config"
  by (simp add: config_ok_def default_config_def quick_config_def)

lemmas handler_defs =
  reed0_raising_def reed1_raising_def btn_raising_def finalyze_rot_def inc_rot_def
  dec_rot_def inc_rot_raise_def dec_rot_raise_def rot_changed_def falling_def change_def
  wait_rot_def wait_btn_def no_change_def

lemmas op_defs = ld_def store_def wake_def debounce_out_def

lemma word_ge1: "(1 \<le> (x::'a::len word)) = (x \<noteq> 0)"
  by (simp add: word_le_nat_alt unat_gt_0 Suc_le_eq)

lemma or_minus_and: "((a::'a::len word) OR b) - (a AND b) = a XOR b"
proof -
  have "(a XOR b) + (a AND b) = (a XOR b) OR (a AND b)"
    by (rule disjunctive_add) (auto simp: bit_simps)
  also have "\<dots> = a OR b"
    by (rule bit_eqI) (auto simp: bit_simps)
  finally have "a OR b = (a XOR b) + (a AND b)" by simp
  then show ?thesis by simp
qed

lemma xor_eq_0: "((a::'a::len word) XOR b = 0) = (a = b)"
  by (metis xor.right_neutral xor_self_eq bit.xor_left_self)

text \<open>The subtraction of the code computes the exclusive or, as its comment says.\<close>

lemma changed_bits_xor: "changed_bits r1 prev = r1 XOR prev"
  by (simp add: changed_bits_def or_minus_and)

lemma changed_bits_0: "(changed_bits r1 prev = 0) = (r1 = prev)"
  by (simp add: changed_bits_xor xor_eq_0)

text \<open>A raising edge under a mask: a masked bit that is set now and was clear before.\<close>

lemma raising_iff: "raising m r1 (changed_bits r1 prev) \<longleftrightarrow> r1 AND NOT prev AND m \<noteq> 0"
proof -
  have "((r1 XOR prev) AND m) AND r1 = r1 AND NOT prev AND m"
    by (rule bit_eqI) (auto simp: bit_simps)
  then show ?thesis
    by (simp add: raising_def changed_bits_xor word_ge1)
qed

text \<open>The table index stays within the 16 entries of the table.\<close>

lemma rot_code_less_16: "unat (rot_code cfg r1 prev) < 16"
proof -
  have "rot_code cfg r1 prev AND 15 = rot_code cfg r1 prev"
    unfolding rot_code_def by (simp add: word_ao_dist and.assoc)
  moreover have "unat (rot_code cfg r1 prev AND 15) \<le> unat (15 :: u16)"
    by (rule word_and_le1 [THEN word_le_nat_alt [THEN iffD1]])
  ultimately show ?thesis by simp
qed

lemma less_16_cases:
  "(c::nat) < 16 \<Longrightarrow> c \<in> {0, 1, 2, 3, 4, 5, 6, 7, 8, 9, 10, 11, 12, 13, 14, 15}"
  by simp arith

lemma st_tbl_values:
  "c < 16 \<Longrightarrow>
   st_tbl ! c = (if c \<in> {1, 7, 8, 14} then 1 else if c \<in> {2, 4, 11, 13} then 2 else 0)"
  by (drule less_16_cases) (auto simp: st_tbl_def)

lemma st_tbl_vs_spec:
  "c < 16 \<Longrightarrow> (st_tbl ! c = spec_decode_tbl ! c) = (c \<le> 8 \<or> c = 10)"
  by (drule less_16_cases) (auto simp: st_tbl_def spec_decode_tbl_def)

lemma rot_changed_rot_cnt:
  "ld rot_cnt (rot_changed cfg r1 s) =
     (if rot_code cfg r1 (r2 s) = 0x0B then ld rot_cnt s + 1
      else if rot_code cfg r1 (r2 s) = 0x07 then ld rot_cnt s - 1
      else ld rot_cnt s)"
  by (simp add: handler_defs op_defs Let_def st_tbl_def)

subsection \<open>Loads, stores and the log\<close>

lemma ld_store: "ld x (store y v s) = (if x = y then v else ld x s)"
  by (simp add: ld_def store_def)

lemma ld_wake: "ld x (wake s) = ld x s"
  by (simp add: ld_def wake_def)

lemma ld_debounce_out: "ld x (debounce_out cfg b s) = ld x s"
  by (simp add: ld_def debounce_out_def)

lemma ld_r2_update: "ld x (s\<lparr>r2 := v\<rparr>) = ld x s"
  by (simp add: ld_def)

lemma ld_stage_update: "ld x (s\<lparr>stage_cnt := c\<rparr>) = ld x s"
  by (simp add: ld_def)

lemma log_store: "log (store x v s) = log s @ [St x v]"
  by (simp add: store_def)

lemma log_wake: "log (wake s) = log s @ [Wake]"
  by (simp add: wake_def)

lemma log_debounce_out:
  "log (debounce_out cfg b s) = log s @ (if REED_DEBOUNCE_OUT cfg then [RtcOut b] else [])"
  by (simp add: debounce_out_def)

lemma r2_ops:
  "r2 (store x v s) = r2 s" "r2 (wake s) = r2 s" "r2 (debounce_out cfg b s) = r2 s"
  by (simp_all add: store_def wake_def debounce_out_def)

lemma stage_cnt_ops:
  "stage_cnt (store x v s) = stage_cnt s" "stage_cnt (wake s) = stage_cnt s"
  "stage_cnt (debounce_out cfg b s) = stage_cnt s"
  by (simp_all add: store_def wake_def debounce_out_def)

lemmas op_simps =
  ld_store ld_wake ld_debounce_out ld_r2_update ld_stage_update
  log_store log_wake log_debounce_out r2_ops stage_cnt_ops

subsection \<open>One pass, by the handler it runs\<close>

lemma loop_forever_no_change:
  "sample cfg io = r2 s \<Longrightarrow> loop_forever cfg io s = no_change cfg s"
  by (simp add: loop_forever_def changed_bits_0 Let_def)

lemma loop_forever_change:
  "sample cfg io \<noteq> r2 s \<Longrightarrow>
   loop_forever cfg io s = change cfg (sample cfg io) (changed_bits (sample cfg io) (r2 s)) s"
  by (simp add: loop_forever_def changed_bits_0 Let_def)

text \<open>No bit of an unchanged sample is raising or changed.\<close>

lemma no_edge_if_unchanged:
  assumes "sample cfg io = r2 s"
  shows "\<not> reed0_rises cfg io s" "\<not> reed1_rises cfg io s" "\<not> rot_changes cfg io s"
    "\<not> btn_rises cfg io s"
  using assms
  by (simp_all add: reed0_rises_def reed1_rises_def rot_changes_def btn_rises_def
      raising_def changed_def changed_bits_xor)

lemma changed_if_edge:
  "reed0_rises cfg io s \<or> reed1_rises cfg io s \<or> rot_changes cfg io s \<or> btn_rises cfg io s
   \<Longrightarrow> sample cfg io \<noteq> r2 s"
  using no_edge_if_unchanged [of cfg io s] by blast

lemma loop_forever_reed0:
  assumes "reed0_rises cfg io s"
  shows "loop_forever cfg io s = reed0_raising cfg (sample cfg io) s"
proof -
  have "sample cfg io \<noteq> r2 s" using assms changed_if_edge by blast
  then show ?thesis
    using assms by (simp add: loop_forever_change change_def reed0_rises_def)
qed

lemma loop_forever_reed1:
  assumes "\<not> reed0_rises cfg io s" "reed1_rises cfg io s"
  shows "loop_forever cfg io s = reed1_raising (sample cfg io) s"
proof -
  have "sample cfg io \<noteq> r2 s" using assms changed_if_edge by blast
  then show ?thesis
    using assms by (simp add: loop_forever_change change_def reed0_rises_def reed1_rises_def)
qed

lemma loop_forever_rot:
  assumes "\<not> reed0_rises cfg io s" "\<not> reed1_rises cfg io s" "rot_changes cfg io s"
  shows "loop_forever cfg io s = rot_changed cfg (sample cfg io) s"
proof -
  have "sample cfg io \<noteq> r2 s" using assms changed_if_edge by blast
  then show ?thesis
    using assms
    by (simp add: loop_forever_change change_def reed0_rises_def reed1_rises_def
        rot_changes_def)
qed

lemma loop_forever_btn:
  assumes "\<not> reed0_rises cfg io s" "\<not> reed1_rises cfg io s" "\<not> rot_changes cfg io s"
    "btn_rises cfg io s"
  shows "loop_forever cfg io s = btn_raising cfg (sample cfg io) s"
proof -
  have "sample cfg io \<noteq> r2 s" using assms changed_if_edge by blast
  then show ?thesis
    using assms
    by (simp add: loop_forever_change change_def reed0_rises_def reed1_rises_def
        rot_changes_def btn_rises_def)
qed

text \<open>What is left: a falling edge of a button or of a reed contact.\<close>

lemma loop_forever_falling:
  "sample cfg io \<noteq> r2 s \<Longrightarrow>
   \<not> reed0_rises cfg io s \<Longrightarrow> \<not> reed1_rises cfg io s \<Longrightarrow> \<not> rot_changes cfg io s \<Longrightarrow>
   \<not> btn_rises cfg io s \<Longrightarrow>
   loop_forever cfg io s =
     falling cfg (sample cfg io) (changed_bits (sample cfg io) (r2 s)) s"
  by (simp add: loop_forever_change change_def reed0_rises_def reed1_rises_def rot_changes_def
      btn_rises_def)

text \<open>The handler of a pass is one of six.\<close>

lemma loop_forever_cases:
  obtains
    (unchanged) "sample cfg io = r2 s" "loop_forever cfg io s = no_change cfg s"
  | (reed0) "reed0_rises cfg io s" "loop_forever cfg io s = reed0_raising cfg (sample cfg io) s"
  | (reed1) "\<not> reed0_rises cfg io s" "reed1_rises cfg io s"
      "loop_forever cfg io s = reed1_raising (sample cfg io) s"
  | (rot) "\<not> reed0_rises cfg io s" "\<not> reed1_rises cfg io s" "rot_changes cfg io s"
      "loop_forever cfg io s = rot_changed cfg (sample cfg io) s"
  | (btn) "\<not> reed0_rises cfg io s" "\<not> reed1_rises cfg io s" "\<not> rot_changes cfg io s"
      "btn_rises cfg io s" "loop_forever cfg io s = btn_raising cfg (sample cfg io) s"
  | (fall) "sample cfg io \<noteq> r2 s" "\<not> reed0_rises cfg io s" "\<not> reed1_rises cfg io s"
      "\<not> rot_changes cfg io s" "\<not> btn_rises cfg io s"
      "loop_forever cfg io s =
         falling cfg (sample cfg io) (changed_bits (sample cfg io) (r2 s)) s"
  using loop_forever_no_change loop_forever_reed0 loop_forever_reed1 loop_forever_rot
    loop_forever_btn loop_forever_falling
  by blast

subsection \<open>The log of each handler\<close>

lemma rot_changed_eq:
  "rot_changed cfg r1 s =
     (if rot_code cfg r1 (r2 s) = 0x0B
      then inc_rot cfg r1 (store rot_tmp (rot_code cfg r1 (r2 s)) s)
      else if rot_code cfg r1 (r2 s) = 0x07
      then dec_rot cfg r1 (store rot_tmp (rot_code cfg r1 (r2 s)) s)
      else (store rot_tmp (rot_code cfg r1 (r2 s)) s)\<lparr>r2 := r1\<rparr>)"
  by (simp add: rot_changed_def inc_rot_raise_def dec_rot_raise_def Let_def st_tbl_def ld_store)

lemma log_reed0_raising:
  "log (reed0_raising cfg r1 s) = log s @
     (if ld wait_reed_cnt s \<noteq> 0 then []
      else [St wait_reed_cnt (WAIT_REED_SET cfg)] @
           (if REED_DEBOUNCE_OUT cfg then [RtcOut True] else []) @
           (if stage_cnt s + 1 < REED_DIV cfg then [] else [St evnt REED_EVNT, Wake]))"
  by (simp add: reed0_raising_def Let_def word_ge1 op_simps)

lemma log_reed1_raising:
  "log (reed1_raising r1 s) = log s @
     (if ld wait_reed_cnt s = 0 then [] else [St wait_reed_cnt 1])"
  by (simp add: reed1_raising_def op_simps)

lemma log_btn_raising:
  "log (btn_raising cfg r1 s) = log s @
     (if ld wait_btn_cnt s \<noteq> 0 then []
      else [St btn (r1 AND BTN_RTC_GPIO_MASK cfg), St wait_btn_cnt (WAIT_BTN_SET cfg),
            St evnt BTN_EVNT, Wake])"
  by (simp add: btn_raising_def Let_def word_ge1 op_simps)

lemma log_rot_changed:
  "log (rot_changed cfg r1 s) = log s @
     St rot_tmp (rot_code cfg r1 (r2 s)) #
     (if rot_code cfg r1 (r2 s) = 0x0B
      then [St rot_cnt (ld rot_cnt s + 1), St wait_rot_cnt (WAIT_ROT_SET cfg)]
      else if rot_code cfg r1 (r2 s) = 0x07
      then [St rot_cnt (ld rot_cnt s - 1), St wait_rot_cnt (WAIT_ROT_SET cfg)]
      else [])"
  by (simp add: rot_changed_eq inc_rot_def dec_rot_def finalyze_rot_def op_simps)

lemma log_falling:
  "log (falling cfg r1 r3 s) = log s @
     (if changed (BTN_RTC_GPIO_MASK cfg) r3 then [St wait_btn_cnt (WAIT_BTN_SET cfg)]
      else if changed (IO_REED1_MASK cfg) r3 then []
      else [St wait_reed_cnt (WAIT_REED_SET cfg)])"
  by (simp add: falling_def Let_def op_simps)

lemma log_no_change:
  "log (no_change cfg s) = log s @
     (if ld wait_reed_cnt s \<noteq> 0
      then St wait_reed_cnt (ld wait_reed_cnt s - 1) #
           (if ld wait_reed_cnt s = 1 \<and> REED_DEBOUNCE_OUT cfg then [RtcOut False] else [])
      else if ld wait_btn_cnt s \<noteq> 0 then [St wait_btn_cnt (ld wait_btn_cnt s - 1)]
      else if ld wait_rot_cnt s = 0 then []
      else if ld wait_rot_cnt s = 1 then [St wait_rot_cnt 0, St evnt ROT_EVNT, Wake]
      else [St wait_rot_cnt (ld wait_rot_cnt s - 1)])"
  by (simp add: no_change_def wait_btn_def wait_rot_def Let_def word_ge1 op_simps)

subsection \<open>The effects of the wait phase\<close>

lemma emitted_eqI: "log (loop_forever cfg io s) = log s @ out \<Longrightarrow> emitted cfg io s = out"
  by (simp add: emitted_def)

lemma emitted_no_change:
  "sample cfg io = r2 s \<Longrightarrow> emitted cfg io s =
     (if ld wait_reed_cnt s \<noteq> 0
      then St wait_reed_cnt (ld wait_reed_cnt s - 1) #
           (if ld wait_reed_cnt s = 1 \<and> REED_DEBOUNCE_OUT cfg then [RtcOut False] else [])
      else if ld wait_btn_cnt s \<noteq> 0 then [St wait_btn_cnt (ld wait_btn_cnt s - 1)]
      else if ld wait_rot_cnt s = 0 then []
      else if ld wait_rot_cnt s = 1 then [St wait_rot_cnt 0, St evnt ROT_EVNT, Wake]
      else [St wait_rot_cnt (ld wait_rot_cnt s - 1)])"
  by (rule emitted_eqI) (simp only: loop_forever_no_change log_no_change)

lemma ld_no_change:
  "ld x (no_change cfg s) =
     (if ld wait_reed_cnt s \<noteq> 0
      then (if x = wait_reed_cnt then ld wait_reed_cnt s - 1 else ld x s)
      else if ld wait_btn_cnt s \<noteq> 0
      then (if x = wait_btn_cnt then ld wait_btn_cnt s - 1 else ld x s)
      else if ld wait_rot_cnt s = 0 then ld x s
      else if x = wait_rot_cnt then ld wait_rot_cnt s - 1
      else if x = evnt \<and> ld wait_rot_cnt s = 1 then ROT_EVNT
      else ld x s)"
  by (simp add: no_change_def wait_btn_def wait_rot_def Let_def word_ge1 op_simps)


subsection \<open>The rotation counter over a pass and a run\<close>

lemma ld_rot_cnt_handlers:
  "ld rot_cnt (no_change cfg s) = ld rot_cnt s"
  "ld rot_cnt (reed0_raising cfg r1 s) = ld rot_cnt s"
  "ld rot_cnt (reed1_raising r1 s) = ld rot_cnt s"
  "ld rot_cnt (btn_raising cfg r1 s) = ld rot_cnt s"
  "ld rot_cnt (falling cfg r1 r3 s) = ld rot_cnt s"
  by (simp_all add: ld_no_change reed0_raising_def reed1_raising_def btn_raising_def
      falling_def Let_def op_simps)

lemma ld_rot_cnt_loop_forever:
  "ld rot_cnt (loop_forever cfg io s) = ld rot_cnt s + of_int (detent_step cfg io s)"
proof (cases rule: loop_forever_cases [of cfg io s])
  case unchanged
  then show ?thesis
    using no_edge_if_unchanged(3) [of cfg io s]
    by (simp add: ld_rot_cnt_handlers detent_step_def)
next
  case rot
  then show ?thesis
    by (simp add: rot_changed_rot_cnt detent_step_def)
qed (simp_all add: ld_rot_cnt_handlers detent_step_def)

lemma rot_cnt_run:
  "ld rot_cnt (run cfg ios s) = ld rot_cnt s + of_int (net_rotation cfg ios s)"
  by (induction ios arbitrary: s) (simp_all add: ld_rot_cnt_loop_forever)

section \<open>The rotation counter\<close>

text \<open>
  C1. The claim: after any sequence of accepted detent steps the counter stays within
  0 and \<open>ROT_CNT_MAX\<close>, wrapping to 0 above \<open>ROT_CNT_MAX\<close> and to \<open>ROT_CNT_MAX\<close> below 0.
  The engine adds and subtracts 1 on the 16-bit register and never compares with
  \<open>ROT_CNT_MAX\<close>: with the default \<open>ROT_CNT_MAX = 19\<close>, twenty accepted increment steps
  from the start (the encoder bits on RTC IO 4 and 3 going 11, 10, 11, 10, ...) leave the
  counter at 20, and one accepted decrement step from the start (the bits going 11, 01)
  leaves it at 65535, from where an accepted increment step (the bits going 11, 10) leads
  back to 0: the counter wraps at 16 bits.
\<close>

theorem rot_cnt_passes_ROT_CNT_MAX:
  "int (ROT_CNT_MAX default_config) = 19 \<and>
   uint (ld rot_cnt (run default_config (concat (replicate 20 [0x10, 0x18]))
                       (entry default_config 0x18))) = 20 \<and>
   uint (ld rot_cnt (entry default_config 0x18)) = 0 \<and>
   uint (ld rot_cnt (run default_config [0x08] (entry default_config 0x18))) = 65535 \<and>
   uint (ld rot_cnt (run default_config [0x08, 0x18, 0x10] (entry default_config 0x18))) = 0"
  by code_simp

section \<open>The quadrature decode\<close>

text \<open>
  C2. For every 4-bit transition code the engine's table gives 1 at codes 1, 7, 8, 14,
  gives 2 at codes 2, 4, 11, 13 and 0 elsewhere; it agrees with the table of section 4.1
  of the specification exactly at the codes 0 to 8 and 10. The code built by the handler
  is always one of the 16, and the handler changes the rotation counter only at the codes
  0x0B, by +1, and 0x07, by -1, on the 16-bit register. No other handler changes the
  counter: over a pass it changes by the accepted detent step of the pass, if any.
\<close>

theorem rot_changed_decode:
  "(c < 16 \<longrightarrow>
      st_tbl ! c = (if c \<in> {1, 7, 8, 14} then 1 else if c \<in> {2, 4, 11, 13} then 2 else 0) \<and>
      (st_tbl ! c = spec_decode_tbl ! c) = (c \<le> 8 \<or> c = 10)) \<and>
   unat (rot_code cfg r1 (r2 s)) < 16 \<and>
   ld rot_cnt (rot_changed cfg r1 s) =
     (if rot_code cfg r1 (r2 s) = 0x0B then ld rot_cnt s + 1
      else if rot_code cfg r1 (r2 s) = 0x07 then ld rot_cnt s - 1
      else ld rot_cnt s) \<and>
   ld rot_cnt (loop_forever cfg io s) = ld rot_cnt s + of_int (detent_step cfg io s)"
  using st_tbl_values [of c] st_tbl_vs_spec [of c] rot_code_less_16 [of cfg r1 "r2 s"]
    rot_changed_rot_cnt [of cfg r1 s] ld_rot_cnt_loop_forever [of cfg io s]
  by simp

text \<open>
  The theorem at code 0x0B, reached from the start by the encoder bits going from 11
  to 10.
\<close>

theorem rot_changed_decode_witness:
  "(11::nat) < 16 \<and> st_tbl ! 11 = 2 \<and> st_tbl ! 11 \<noteq> spec_decode_tbl ! 11 \<and>
   rot_code default_config 0x10 (r2 (entry default_config 0x18)) = 0x0B \<and>
   ld rot_cnt (rot_changed default_config 0x10 (entry default_config 0x18)) = 1 \<and>
   ld rot_cnt (loop_forever default_config 0x10 (entry default_config 0x18)) = 1"
proof -
  have c: "rot_code default_config 0x10 (r2 (entry default_config 0x18)) = 0x0B"
    by code_simp
  have z: "ld rot_cnt (entry default_config 0x18) = 0"
    "detent_step default_config 0x10 (entry default_config 0x18) = 1"
    by code_simp+
  show ?thesis
    using rot_changed_decode
      [of 11 default_config "0x10" "entry default_config 0x18" "0x10"] c z
    by auto
qed

text \<open>
  The table of the engine against the table of section 4.1: at code 9 the engine has 0
  where the specification has 1, and at code 0x0B the engine has 2 where the
  specification has 0.
\<close>

theorem st_tbl_differs_from_spec_table:
  "st_tbl ! 9 = 0 \<and> spec_decode_tbl ! 9 = 1 \<and> st_tbl ! 11 = 2 \<and> spec_decode_tbl ! 11 = 0"
  by (simp add: st_tbl_def spec_decode_tbl_def)

section \<open>Event codes of the engine and of the header\<close>

text \<open>
  C4. The claim: the code the engine writes for an event class is the constant of the
  public header for that class. On a button press the engine writes 3, which the header
  names \<open>EVNT_ROT\<close>, where the header has \<open>EVNT_BTN_PRSS = 1\<close>; when the rotary timer
  expires the engine writes 2, which the header names \<open>EVNT_BTN_RELS\<close>, where the header
  has \<open>EVNT_ROT = 3\<close>.
\<close>

theorem event_codes_differ_from_header:
  "emitted default_config 0x38 (entry default_config 0x18) =
     [St btn 0x20, St wait_btn_cnt 300, St evnt BTN_EVNT, Wake] \<and>
   uint BTN_EVNT = 3 \<and> EVNT_BTN_PRSS = 1 \<and> EVNT_ROT = 3 \<and>
   emitted quick_config 0x10 (run quick_config [0x10, 0x10] (entry quick_config 0x18)) =
     [St wait_rot_cnt 0, St evnt ROT_EVNT, Wake] \<and>
   uint ROT_EVNT = 2 \<and> EVNT_BTN_RELS = 2"
  by code_simp

section \<open>The wait phase\<close>




section \<open>Reed channel 1\<close>






section \<open>The order of the stores and the wake\<close>

lemma wake_forms:
  assumes "Wake \<in> set (emitted cfg io s)"
  shows "emitted cfg io s =
           ([St wait_reed_cnt (WAIT_REED_SET cfg)] @
            (if REED_DEBOUNCE_OUT cfg then [RtcOut True] else [])) @ [St evnt REED_EVNT, Wake] \<and>
           ld evnt (loop_forever cfg io s) = REED_EVNT \<or>
         emitted cfg io s =
           [St btn (sample cfg io AND BTN_RTC_GPIO_MASK cfg),
            St wait_btn_cnt (WAIT_BTN_SET cfg)] @ [St evnt BTN_EVNT, Wake] \<and>
           ld evnt (loop_forever cfg io s) = BTN_EVNT \<or>
         emitted cfg io s = [St wait_rot_cnt 0] @ [St evnt ROT_EVNT, Wake] \<and>
           ld evnt (loop_forever cfg io s) = ROT_EVNT"
proof (cases rule: loop_forever_cases [of cfg io s])
  case unchanged
  then show ?thesis
    using assms
    by (simp add: emitted_no_change ld_no_change split: if_splits)
next
  case reed0
  have "emitted cfg io s = drop (length (log s)) (log (reed0_raising cfg (sample cfg io) s))"
    by (simp add: emitted_def reed0)
  then show ?thesis
    using assms reed0(2)
    by (simp add: log_reed0_raising reed0_raising_def Let_def word_ge1 op_simps
        split: if_splits)
next
  case reed1
  have "emitted cfg io s = drop (length (log s)) (log (reed1_raising (sample cfg io) s))"
    by (simp add: emitted_def reed1)
  then show ?thesis
    using assms by (simp add: log_reed1_raising split: if_splits)
next
  case rot
  have "emitted cfg io s = drop (length (log s)) (log (rot_changed cfg (sample cfg io) s))"
    by (simp add: emitted_def rot)
  then show ?thesis
    using assms by (simp add: log_rot_changed split: if_splits)
next
  case btn
  have "emitted cfg io s = drop (length (log s)) (log (btn_raising cfg (sample cfg io) s))"
    by (simp add: emitted_def btn)
  then show ?thesis
    using assms btn(5)
    by (simp add: log_btn_raising btn_raising_def Let_def word_ge1 op_simps split: if_splits)
next
  case fall
  have "emitted cfg io s = drop (length (log s))
          (log (falling cfg (sample cfg io) (changed_bits (sample cfg io) (r2 s)) s))"
    by (simp add: emitted_def fall)
  then show ?thesis
    using assms by (simp add: log_falling split: if_splits)
qed

text \<open>
  C7. In every pass that executes \<open>wake\<close>, the effects of the pass end with the store of
  the event code followed by \<open>wake\<close>: every other store of the pass (the button bitmask,
  the timers) comes before the store of the event code, there is one \<open>wake\<close>, nothing
  follows it, and the event code in memory after the pass is the one stored.
\<close>

theorem wake_after_event_code:
  assumes "Wake \<in> set (emitted cfg io s)"
  shows "\<exists>pre e. emitted cfg io s = pre @ [St evnt e, Wake] \<and>
           Wake \<notin> set pre \<and> (\<forall>v. St evnt v \<notin> set pre) \<and>
           e \<in> {REED_EVNT, ROT_EVNT, BTN_EVNT} \<and>
           ld evnt (loop_forever cfg io s) = e"
proof -
  consider
    (reed) "emitted cfg io s =
           ([St wait_reed_cnt (WAIT_REED_SET cfg)] @
            (if REED_DEBOUNCE_OUT cfg then [RtcOut True] else [])) @ [St evnt REED_EVNT, Wake]"
      "ld evnt (loop_forever cfg io s) = REED_EVNT"
  | (btn) "emitted cfg io s =
           [St btn (sample cfg io AND BTN_RTC_GPIO_MASK cfg),
            St wait_btn_cnt (WAIT_BTN_SET cfg)] @ [St evnt BTN_EVNT, Wake]"
      "ld evnt (loop_forever cfg io s) = BTN_EVNT"
  | (rot) "emitted cfg io s = [St wait_rot_cnt 0] @ [St evnt ROT_EVNT, Wake]"
      "ld evnt (loop_forever cfg io s) = ROT_EVNT"
    using wake_forms [OF assms] by blast
  then show ?thesis
  proof cases
    case reed
    show ?thesis
      by (rule exI [of _ "[St wait_reed_cnt (WAIT_REED_SET cfg)] @
            (if REED_DEBOUNCE_OUT cfg then [RtcOut True] else [])"], rule exI [of _ REED_EVNT])
        (simp add: reed)
  next
    case btn
    show ?thesis
      by (rule exI [of _ "[St btn (sample cfg io AND BTN_RTC_GPIO_MASK cfg),
            St wait_btn_cnt (WAIT_BTN_SET cfg)]"], rule exI [of _ BTN_EVNT])
        (simp add: btn)
  next
    case rot
    show ?thesis
      by (rule exI [of _ "[St wait_rot_cnt 0]"], rule exI [of _ ROT_EVNT]) (simp add: rot)
  qed
qed

text \<open>The theorem on a button press from the start.\<close>

theorem wake_after_event_code_witness:
  "Wake \<in> set (emitted default_config 0x38 (entry default_config 0x18)) \<and>
   (\<exists>pre e. emitted default_config 0x38 (entry default_config 0x18) = pre @ [St evnt e, Wake] \<and>
           Wake \<notin> set pre \<and> (\<forall>v. St evnt v \<notin> set pre) \<and>
           e \<in> {REED_EVNT, ROT_EVNT, BTN_EVNT} \<and>
           ld evnt (loop_forever default_config 0x38 (entry default_config 0x18)) = e)"
proof -
  have h: "Wake \<in> set (emitted default_config 0x38 (entry default_config 0x18))"
    by code_simp
  from h wake_after_event_code [OF h] show ?thesis by (rule conjI)
qed

section \<open>Bounce suppression\<close>




section \<open>The reed trigger counter\<close>

lemma stage_cnt_handlers:
  "stage_cnt (no_change cfg s) = stage_cnt s"
  "stage_cnt (reed1_raising r1 s) = stage_cnt s"
  "stage_cnt (rot_changed cfg r1 s) = stage_cnt s"
  "stage_cnt (btn_raising cfg r1 s) = stage_cnt s"
  "stage_cnt (falling cfg r1 r3 s) = stage_cnt s"
  by (simp_all add: no_change_def wait_btn_def wait_rot_def reed1_raising_def rot_changed_eq
      inc_rot_def dec_rot_def finalyze_rot_def btn_raising_def falling_def Let_def op_simps)

lemma stage_cnt_reed0_raising:
  "stage_cnt (reed0_raising cfg r1 s) =
     (if ld wait_reed_cnt s \<noteq> 0 then stage_cnt s
      else if stage_cnt s + 1 < REED_DIV cfg then stage_cnt s + 1 else 0)"
  by (simp add: reed0_raising_def Let_def word_ge1 op_simps)

lemma stage_cnt_loop_forever:
  "stage_cnt (loop_forever cfg io s) =
     (if reed0_accepted cfg io s
      then (if stage_cnt s + 1 < REED_DIV cfg then stage_cnt s + 1 else 0)
      else stage_cnt s)"
proof (cases rule: loop_forever_cases [of cfg io s])
  case unchanged
  then show ?thesis
    using no_edge_if_unchanged(1) [of cfg io s]
    by (simp add: stage_cnt_handlers reed0_accepted_def)
next
  case reed0
  then show ?thesis
    by (simp add: stage_cnt_reed0_raising reed0_accepted_def)
qed (simp_all add: stage_cnt_handlers reed0_accepted_def)

lemma notified_reed:
  "notified REED_EVNT (emitted cfg io s) =
     (reed0_accepted cfg io s \<and> \<not> stage_cnt s + 1 < REED_DIV cfg)"
proof (cases rule: loop_forever_cases [of cfg io s])
  case unchanged
  then show ?thesis
    using no_edge_if_unchanged(1) [of cfg io s]
    by (simp add: emitted_no_change reed0_accepted_def notified_def REED_EVNT_def ROT_EVNT_def)
next
  case reed0
  have "emitted cfg io s = drop (length (log s)) (log (reed0_raising cfg (sample cfg io) s))"
    by (simp add: emitted_def reed0)
  then show ?thesis
    using reed0(1)
    by (simp add: log_reed0_raising reed0_accepted_def notified_def)
next
  case reed1
  have "emitted cfg io s = drop (length (log s)) (log (reed1_raising (sample cfg io) s))"
    by (simp add: emitted_def reed1)
  then show ?thesis
    using reed1(1) by (simp add: log_reed1_raising reed0_accepted_def notified_def)
next
  case rot
  have "emitted cfg io s = drop (length (log s)) (log (rot_changed cfg (sample cfg io) s))"
    by (simp add: emitted_def rot)
  then show ?thesis
    using rot(1) by (simp add: log_rot_changed reed0_accepted_def notified_def)
next
  case btn
  have "emitted cfg io s = drop (length (log s)) (log (btn_raising cfg (sample cfg io) s))"
    by (simp add: emitted_def btn)
  then show ?thesis
    using btn(1)
    by (simp add: log_btn_raising reed0_accepted_def notified_def REED_EVNT_def BTN_EVNT_def)
next
  case fall
  have "emitted cfg io s = drop (length (log s))
          (log (falling cfg (sample cfg io) (changed_bits (sample cfg io) (r2 s)) s))"
    by (simp add: emitted_def fall)
  then show ?thesis
    using fall(2) by (simp add: log_falling reed0_accepted_def notified_def)
qed

text \<open>In a pass that runs \<open>reed0_raising\<close>, the wake is the reed notification.\<close>

lemma wake_reed:
  "notified REED_EVNT (emitted cfg io s) =
     (reed0_rises cfg io s \<and> Wake \<in> set (emitted cfg io s))"
proof (cases "reed0_rises cfg io s")
  case True
  have "emitted cfg io s = drop (length (log s)) (log (reed0_raising cfg (sample cfg io) s))"
    by (simp add: emitted_def loop_forever_reed0 [OF True])
  then show ?thesis
    using True by (simp add: log_reed0_raising notified_def)
next
  case False
  then show ?thesis
    by (simp add: notified_reed reed0_accepted_def)
qed

text \<open>Below the divisor the increment of the 8-bit stage counter does not wrap.\<close>

lemma stage_inc_no_wrap:
  fixes c d :: u8
  assumes "c < d"
  shows "unat (c + 1) = unat c + 1" and "(c + 1 < d) = (unat c + 1 < unat d)"
    and "\<not> c + 1 < d \<Longrightarrow> unat c + 1 = unat d"
proof -
  have "unat c < unat d" using assms by (simp add: word_less_nat_alt)
  moreover have "unat d < 2 ^ LENGTH(8)" by (rule unsigned_less)
  ultimately have "unat c + 1 < 256" by simp
  then show u: "unat (c + 1) = unat c + 1"
    by (simp add: unat_word_ariths)
  show l: "(c + 1 < d) = (unat c + 1 < unat d)"
    by (simp add: word_less_nat_alt u)
  show "unat c + 1 = unat d" if "\<not> c + 1 < d"
    using that \<open>unat c < unat d\<close> l by simp
qed

lemma reed_trigger_run:
  "stage_cnt s < REED_DIV cfg \<Longrightarrow>
   notifications REED_EVNT cfg ios s =
     (unat (stage_cnt s) + accepted_edges cfg ios s) div unat (REED_DIV cfg) \<and>
   unat (stage_cnt (run cfg ios s)) =
     (unat (stage_cnt s) + accepted_edges cfg ios s) mod unat (REED_DIV cfg)"
proof (induction ios arbitrary: s)
  case Nil
  then show ?case by (simp add: word_less_nat_alt)
next
  case (Cons io ios)
  let ?s' = "loop_forever cfg io s"
  note lt = Cons.prems
  have pos: "0 < unat (REED_DIV cfg)" using lt by (simp add: word_less_nat_alt)
  show ?case
  proof (cases "reed0_accepted cfg io s")
    case False
    then have "stage_cnt ?s' = stage_cnt s" "\<not> notified REED_EVNT (emitted cfg io s)"
      by (simp_all add: stage_cnt_loop_forever notified_reed)
    then show ?thesis
      using Cons.IH [of ?s'] lt False by simp
  next
    case acc: True
    show ?thesis
    proof (cases "stage_cnt s + 1 < REED_DIV cfg")
      case True
      then have st: "stage_cnt ?s' = stage_cnt s + 1" "\<not> notified REED_EVNT (emitted cfg io s)"
        using acc by (simp_all add: stage_cnt_loop_forever notified_reed)
      have "stage_cnt ?s' < REED_DIV cfg" using st True by simp
      from Cons.IH [OF this] show ?thesis
        using st acc stage_inc_no_wrap(1) [OF lt] by (simp add: add.assoc)
    next
      case False
      then have st: "stage_cnt ?s' = 0" "notified REED_EVNT (emitted cfg io s)"
        using acc by (simp_all add: stage_cnt_loop_forever notified_reed)
      have full: "unat (stage_cnt s) + 1 = unat (REED_DIV cfg)"
        using stage_inc_no_wrap(3) [OF lt False] .
      have "stage_cnt ?s' < REED_DIV cfg" using st pos by (simp add: word_less_nat_alt)
      from Cons.IH [OF this]
      have ih: "notifications REED_EVNT cfg ios ?s' =
                  accepted_edges cfg ios ?s' div unat (REED_DIV cfg)"
        "unat (stage_cnt (run cfg ios ?s')) = accepted_edges cfg ios ?s' mod unat (REED_DIV cfg)"
        using st by simp_all
      have e: "Suc (unat (stage_cnt s) + accepted_edges cfg ios ?s') =
               unat (REED_DIV cfg) + accepted_edges cfg ios ?s'"
        using full by simp
      have d: "(unat (REED_DIV cfg) + accepted_edges cfg ios ?s') div unat (REED_DIV cfg) =
               Suc (accepted_edges cfg ios ?s' div unat (REED_DIV cfg))"
        using pos by (simp add: div_add_self1)
      show ?thesis
        using st acc ih by (simp add: e d)
    qed
  qed
qed

text \<open>
  C6. With the trigger counter below the divisor \<open>REED_DIV\<close> (at the start it is 0, so
  this asks for a divisor of at least 1), over any run of the loop the number of reed
  notifications is the number of accepted raising edges of reed 0, counted from the
  current value of the trigger counter, divided by \<open>REED_DIV\<close>, and the trigger counter
  is the remainder, again below the divisor. In a single pass the reed event is raised
  exactly when the edge is accepted and it is the one that brings the counter to
  \<open>REED_DIV\<close>; no other pass of \<open>reed0_raising\<close> wakes the consumer; right after the
  event the counter is 0; every other accepted edge only increments the counter.
\<close>

theorem reed_triggered_every_REED_DIV:
  assumes "stage_cnt s < REED_DIV cfg"
  shows "notifications REED_EVNT cfg ios s =
           (unat (stage_cnt s) + accepted_edges cfg ios s) div unat (REED_DIV cfg) \<and>
         unat (stage_cnt (run cfg ios s)) =
           (unat (stage_cnt s) + accepted_edges cfg ios s) mod unat (REED_DIV cfg) \<and>
         stage_cnt (run cfg ios s) < REED_DIV cfg \<and>
         notified REED_EVNT (emitted cfg io s) =
           (reed0_accepted cfg io s \<and> unat (stage_cnt s) + 1 = unat (REED_DIV cfg)) \<and>
         notified REED_EVNT (emitted cfg io s) =
           (reed0_rises cfg io s \<and> Wake \<in> set (emitted cfg io s)) \<and>
         stage_cnt (loop_forever cfg io s) =
           (if notified REED_EVNT (emitted cfg io s) then 0
            else if reed0_accepted cfg io s then stage_cnt s + 1 else stage_cnt s)"
proof -
  have "(\<not> stage_cnt s + 1 < REED_DIV cfg) = (unat (stage_cnt s) + 1 = unat (REED_DIV cfg))"
    using stage_inc_no_wrap(2,3) [OF assms] by auto
  then have n: "notified REED_EVNT (emitted cfg io s) =
      (reed0_accepted cfg io s \<and> unat (stage_cnt s) + 1 = unat (REED_DIV cfg))"
    by (simp add: notified_reed)
  have c: "stage_cnt (loop_forever cfg io s) =
           (if notified REED_EVNT (emitted cfg io s) then 0
            else if reed0_accepted cfg io s then stage_cnt s + 1 else stage_cnt s)"
    by (simp add: stage_cnt_loop_forever notified_reed)
  have pos: "0 < unat (REED_DIV cfg)" using assms by (simp add: word_less_nat_alt)
  note r = reed_trigger_run [OF assms, of ios]
  have "unat (stage_cnt (run cfg ios s)) < unat (REED_DIV cfg)"
    using r pos by simp
  then have i: "stage_cnt (run cfg ios s) < REED_DIV cfg"
    by (simp add: word_less_nat_alt)
  from n c r i wake_reed [of cfg io s] show ?thesis by simp
qed

text \<open>
  The theorem with the default divisor 5 from the start: four pulses of reed 0 raise no
  notification, five pulses raise one and leave the trigger counter at 0.
\<close>

theorem reed_triggered_every_REED_DIV_witness:
  "stage_cnt (entry default_config 0x18) < REED_DIV default_config \<and>
   accepted_edges default_config (concat (replicate 4 reed_pulse)) (entry default_config 0x18) = 4 \<and>
   notifications REED_EVNT default_config (concat (replicate 4 reed_pulse))
     (entry default_config 0x18) = 0 \<and>
   accepted_edges default_config (concat (replicate 5 reed_pulse)) (entry default_config 0x18) = 5 \<and>
   notifications REED_EVNT default_config (concat (replicate 5 reed_pulse))
     (entry default_config 0x18) = 1 \<and>
   stage_cnt (run default_config (concat (replicate 5 reed_pulse)) (entry default_config 0x18)) = 0"
proof -
  let ?e = "entry default_config 0x18"
  have h: "stage_cnt ?e < REED_DIV default_config" by code_simp
  have a: "accepted_edges default_config (concat (replicate 4 reed_pulse)) ?e = 4"
    "accepted_edges default_config (concat (replicate 5 reed_pulse)) ?e = 5"
    by code_simp+
  have d: "unat (REED_DIV default_config) = 5" "unat (stage_cnt ?e) = 0" by code_simp+
  show ?thesis
    using reed_triggered_every_REED_DIV [OF h, of "concat (replicate 4 reed_pulse)"]
      reed_triggered_every_REED_DIV [OF h, of "concat (replicate 5 reed_pulse)"] h
    by (simp add: a d unat_eq_0)
qed

section \<open>The rotation event\<close>

lemma detent_step_effects:
  assumes "detent_step cfg io s \<noteq> 0"
  shows "emitted cfg io s =
           [St rot_tmp (rot_code cfg (sample cfg io) (r2 s)),
            St rot_cnt (ld rot_cnt s + of_int (detent_step cfg io s)),
            St wait_rot_cnt (WAIT_ROT_SET cfg)]"
    and "ld wait_rot_cnt (loop_forever cfg io s) = WAIT_ROT_SET cfg"
proof -
  have d: "\<not> reed0_rises cfg io s" "\<not> reed1_rises cfg io s" "rot_changes cfg io s"
    and c: "rot_code cfg (sample cfg io) (r2 s) = 0x0B \<or> rot_code cfg (sample cfg io) (r2 s) = 0x07"
    using assms by (auto simp: detent_step_def split: if_splits)
  have l: "loop_forever cfg io s = rot_changed cfg (sample cfg io) s"
    using d by (rule loop_forever_rot)
  show "emitted cfg io s =
           [St rot_tmp (rot_code cfg (sample cfg io) (r2 s)),
            St rot_cnt (ld rot_cnt s + of_int (detent_step cfg io s)),
            St wait_rot_cnt (WAIT_ROT_SET cfg)]"
    using c d by (intro emitted_eqI) (auto simp: l log_rot_changed detent_step_def)
  show "ld wait_rot_cnt (loop_forever cfg io s) = WAIT_ROT_SET cfg"
    using c by (auto simp: l rot_changed_eq inc_rot_def dec_rot_def finalyze_rot_def op_simps)
qed

lemma rot_event_iff:
  "St evnt ROT_EVNT \<in> set (emitted cfg io s) = rot_expires cfg io s"
  "notified ROT_EVNT (emitted cfg io s) = rot_expires cfg io s"
proof -
  have "St evnt ROT_EVNT \<in> set (emitted cfg io s) = rot_expires cfg io s \<and>
        notified ROT_EVNT (emitted cfg io s) = rot_expires cfg io s"
  proof (cases rule: loop_forever_cases [of cfg io s])
    case unchanged
    then show ?thesis
      by (simp add: emitted_no_change rot_expires_def notified_def)
  next
    case reed0
    have "emitted cfg io s = drop (length (log s)) (log (reed0_raising cfg (sample cfg io) s))"
      by (simp add: emitted_def reed0)
    then show ?thesis
      using changed_if_edge [of cfg io s] reed0(1)
      by (simp add: log_reed0_raising rot_expires_def notified_def REED_EVNT_def ROT_EVNT_def)
  next
    case reed1
    have "emitted cfg io s = drop (length (log s)) (log (reed1_raising (sample cfg io) s))"
      by (simp add: emitted_def reed1)
    then show ?thesis
      using changed_if_edge [of cfg io s] reed1(2)
      by (simp add: log_reed1_raising rot_expires_def notified_def)
  next
    case rot
    have "emitted cfg io s = drop (length (log s)) (log (rot_changed cfg (sample cfg io) s))"
      by (simp add: emitted_def rot)
    then show ?thesis
      using changed_if_edge [of cfg io s] rot(3)
      by (simp add: log_rot_changed rot_expires_def notified_def)
  next
    case btn
    have "emitted cfg io s = drop (length (log s)) (log (btn_raising cfg (sample cfg io) s))"
      by (simp add: emitted_def btn)
    then show ?thesis
      using changed_if_edge [of cfg io s] btn(4)
      by (simp add: log_btn_raising rot_expires_def notified_def BTN_EVNT_def ROT_EVNT_def)
  next
    case fall
    have "emitted cfg io s = drop (length (log s))
            (log (falling cfg (sample cfg io) (changed_bits (sample cfg io) (r2 s)) s))"
      by (simp add: emitted_def fall)
    then show ?thesis
      using fall(1) by (simp add: log_falling rot_expires_def notified_def)
  qed
  then show "St evnt ROT_EVNT \<in> set (emitted cfg io s) = rot_expires cfg io s"
    "notified ROT_EVNT (emitted cfg io s) = rot_expires cfg io s"
    by simp_all
qed

lemma run_append: "run cfg (ios @ jos) s = run cfg jos (run cfg ios s)"
  by (induction ios arbitrary: s) simp_all

lemma notifications_append:
  "notifications e cfg (ios @ jos) s =
     notifications e cfg ios s + notifications e cfg jos (run cfg ios s)"
  by (induction ios arbitrary: s) simp_all

lemma net_rotation_append:
  "net_rotation cfg (ios @ jos) s = net_rotation cfg ios s + net_rotation cfg jos (run cfg ios s)"
  by (induction ios arbitrary: s) simp_all

text \<open>Unchanged samples with only the rotary timer waiting: it counts down, silently.\<close>

lemma quiet_run:
  "sample cfg io = r2 s \<Longrightarrow> ld wait_reed_cnt s = 0 \<Longrightarrow> ld wait_btn_cnt s = 0 \<Longrightarrow>
   k < unat (ld wait_rot_cnt s) \<Longrightarrow>
   notifications ROT_EVNT cfg (replicate k io) s = 0 \<and>
   r2 (run cfg (replicate k io) s) = r2 s \<and>
   ld wait_reed_cnt (run cfg (replicate k io) s) = 0 \<and>
   ld wait_btn_cnt (run cfg (replicate k io) s) = 0 \<and>
   unat (ld wait_rot_cnt (run cfg (replicate k io) s)) = unat (ld wait_rot_cnt s) - k"
proof (induction k arbitrary: s)
  case 0
  then show ?case by simp
next
  case (Suc k)
  let ?s' = "loop_forever cfg io s"
  have l: "?s' = no_change cfg s" using Suc.prems(1) by (rule loop_forever_no_change)
  have gt: "1 < unat (ld wait_rot_cnt s)" using Suc.prems(4) by simp
  then have ne: "ld wait_rot_cnt s \<noteq> 0" "ld wait_rot_cnt s \<noteq> 1"
    by (auto simp: unat_eq_0)
  have r: "r2 ?s' = r2 s"
    using Suc.prems(2,3) ne
    by (simp add: l no_change_def wait_btn_def wait_rot_def Let_def word_ge1 op_simps)
  have t: "ld wait_reed_cnt ?s' = 0" "ld wait_btn_cnt ?s' = 0"
    "ld wait_rot_cnt ?s' = ld wait_rot_cnt s - 1"
    using Suc.prems(2,3) ne by (simp_all add: l ld_no_change)
  have u: "unat (ld wait_rot_cnt s - 1) = unat (ld wait_rot_cnt s) - 1"
    using ne(1) by (simp add: unat_minus_one)
  have n: "\<not> notified ROT_EVNT (emitted cfg io s)"
    using ne by (simp add: rot_event_iff rot_expires_def)
  have "k < unat (ld wait_rot_cnt ?s')" using Suc.prems(4) t u by simp
  from Suc.IH [of ?s', OF _ t(1,2) this] Suc.prems(1) r
  show ?case
    using n r t u by simp
qed

lemma rot_expires_effects:
  assumes "rot_expires cfg io s"
  shows "emitted cfg io s = [St wait_rot_cnt 0, St evnt ROT_EVNT, Wake]"
    and "ld wait_rot_cnt (loop_forever cfg io s) = 0"
    and "ld rot_cnt (loop_forever cfg io s) = ld rot_cnt s"
  using assms
  by (simp_all add: rot_expires_def emitted_no_change loop_forever_no_change ld_no_change)

lemma quiet_until_expiry:
  assumes "sample cfg io = r2 t" "ld wait_reed_cnt t = 0" "ld wait_btn_cnt t = 0"
    "ld wait_rot_cnt t = WAIT_ROT_SET cfg" "1 \<le> WAIT_ROT_SET cfg"
  shows "notifications ROT_EVNT cfg (replicate (unat (WAIT_ROT_SET cfg) - 1) io) t = 0"
    and "rot_expires cfg io (run cfg (replicate (unat (WAIT_ROT_SET cfg) - 1) io) t)"
proof -
  let ?k = "unat (WAIT_ROT_SET cfg) - 1"
  have pos: "0 < unat (WAIT_ROT_SET cfg)"
    using assms(5) by (simp add: word_ge1 unat_gt_0)
  then have "?k < unat (ld wait_rot_cnt t)" using assms(4) by simp
  from quiet_run [OF assms(1-3) this]
  have q: "notifications ROT_EVNT cfg (replicate ?k io) t = 0"
    "r2 (run cfg (replicate ?k io) t) = r2 t"
    "ld wait_reed_cnt (run cfg (replicate ?k io) t) = 0"
    "ld wait_btn_cnt (run cfg (replicate ?k io) t) = 0"
    "unat (ld wait_rot_cnt (run cfg (replicate ?k io) t)) = unat (ld wait_rot_cnt t) - ?k"
    by simp_all
  show "notifications ROT_EVNT cfg (replicate ?k io) t = 0" by (rule q(1))
  have "unat (ld wait_rot_cnt (run cfg (replicate ?k io) t)) = 1"
    using q(5) pos assms(4) by simp
  then have "ld wait_rot_cnt (run cfg (replicate ?k io) t) = 1"
    by (simp add: word_unat_eq_iff)
  then show "rot_expires cfg io (run cfg (replicate ?k io) t)"
    using q(2,3,4) assms(1) by (simp add: rot_expires_def)
qed

lemma single_notification:
  assumes "notifications ROT_EVNT cfg ios s = 0" "rot_expires cfg io (run cfg ios s)"
  shows "notifications ROT_EVNT cfg (ios @ [io]) s = 1"
    and "ld rot_cnt (run cfg (ios @ [io]) s) = ld rot_cnt s + of_int (net_rotation cfg ios s)"
  using assms
  by (simp_all add: notifications_append run_append rot_event_iff rot_expires_effects
      rot_cnt_run notified_def)

lemma ld_wait_rot_cnt_handlers:
  "ld wait_rot_cnt (reed0_raising cfg r1 s) = ld wait_rot_cnt s"
  "ld wait_rot_cnt (reed1_raising r1 s) = ld wait_rot_cnt s"
  "ld wait_rot_cnt (btn_raising cfg r1 s) = ld wait_rot_cnt s"
  "ld wait_rot_cnt (falling cfg r1 r3 s) = ld wait_rot_cnt s"
  by (simp_all add: reed0_raising_def reed1_raising_def btn_raising_def falling_def Let_def
      op_simps)

lemma ld_wait_rot_cnt_rot_changed:
  "ld wait_rot_cnt (rot_changed cfg r1 s) =
     (if rot_code cfg r1 (r2 s) = 0x0B \<or> rot_code cfg r1 (r2 s) = 0x07
      then WAIT_ROT_SET cfg else ld wait_rot_cnt s)"
  by (simp add: rot_changed_eq inc_rot_def dec_rot_def finalyze_rot_def op_simps)

lemma ld_wait_rot_cnt_loop_forever:
  "ld wait_rot_cnt (loop_forever cfg io s) =
     (if detent_step cfg io s \<noteq> 0 then WAIT_ROT_SET cfg
      else if sample cfg io = r2 s \<and> ld wait_reed_cnt s = 0 \<and> ld wait_btn_cnt s = 0 \<and>
              ld wait_rot_cnt s \<noteq> 0
      then ld wait_rot_cnt s - 1
      else ld wait_rot_cnt s)"
proof (cases rule: loop_forever_cases [of cfg io s])
  case unchanged
  then show ?thesis
    using no_edge_if_unchanged(3) [of cfg io s]
    by (simp add: ld_no_change detent_step_def)
next
  case reed0
  then show ?thesis
    using changed_if_edge [of cfg io s]
    by (simp add: ld_wait_rot_cnt_handlers detent_step_def)
next
  case reed1
  then show ?thesis
    using changed_if_edge [of cfg io s]
    by (simp add: ld_wait_rot_cnt_handlers detent_step_def)
next
  case rot
  then show ?thesis
    using changed_if_edge [of cfg io s]
    by (simp add: ld_wait_rot_cnt_rot_changed detent_step_def)
next
  case btn
  then show ?thesis
    using changed_if_edge [of cfg io s]
    by (simp add: ld_wait_rot_cnt_handlers detent_step_def)
next
  case fall
  then show ?thesis
    by (simp add: ld_wait_rot_cnt_handlers detent_step_def)
qed

text \<open>
  C10. A pass writes the event code \<open>ROT_EVNT\<close> and wakes the consumer exactly when the
  rotary timer expires: the sample is unchanged, the reed and the button timer are not
  waiting, and the rotary timer goes from 1 to 0; the rotation counter is not touched
  then. In any other pass there is no rotation event; an accepted detent step stores the
  code, the new counter and the timer \<open>WAIT_ROT_SET\<close>, and nothing else. The rotary timer
  is set to \<open>WAIT_ROT_SET\<close> by an accepted detent step, counts down by 1 in a pass with an
  unchanged sample and the reed and the button timer idle, and keeps its value in every
  other pass. So after the timer was armed, with unchanged samples and the other timers
  idle, the first \<open>WAIT_ROT_SET - 1\<close> passes raise nothing and the next one is the
  expiry; passes with a changed sample or with the reed or the button timer waiting do
  not count. And over a run that raised no rotation event and ends in the expiry there is
  one rotation notification, with the counter at its start value plus the net number of
  accepted steps of the run.
\<close>

theorem rotated_event_at_timer_expiry:
  "(if rot_expires cfg io s
    then emitted cfg io s = [St wait_rot_cnt 0, St evnt ROT_EVNT, Wake] \<and>
         sample cfg io = r2 s \<and> ld wait_rot_cnt s = 1 \<and>
         ld wait_rot_cnt (loop_forever cfg io s) = 0 \<and>
         ld rot_cnt (loop_forever cfg io s) = ld rot_cnt s
    else St evnt ROT_EVNT \<notin> set (emitted cfg io s) \<and>
         \<not> notified ROT_EVNT (emitted cfg io s) \<and>
         (if detent_step cfg io s \<noteq> 0
          then emitted cfg io s =
                 [St rot_tmp (rot_code cfg (sample cfg io) (r2 s)),
                  St rot_cnt (ld rot_cnt s + of_int (detent_step cfg io s)),
                  St wait_rot_cnt (WAIT_ROT_SET cfg)] \<and>
               ld wait_rot_cnt (loop_forever cfg io s) = WAIT_ROT_SET cfg
          else ld rot_cnt (loop_forever cfg io s) = ld rot_cnt s)) \<and>
   ld wait_rot_cnt (loop_forever cfg io s) =
     (if detent_step cfg io s \<noteq> 0 then WAIT_ROT_SET cfg
      else if sample cfg io = r2 s \<and> ld wait_reed_cnt s = 0 \<and> ld wait_btn_cnt s = 0 \<and>
              ld wait_rot_cnt s \<noteq> 0
      then ld wait_rot_cnt s - 1
      else ld wait_rot_cnt s) \<and>
   (sample cfg io = r2 t \<and> ld wait_reed_cnt t = 0 \<and> ld wait_btn_cnt t = 0 \<and>
    ld wait_rot_cnt t = WAIT_ROT_SET cfg \<and> 1 \<le> WAIT_ROT_SET cfg \<longrightarrow>
      notifications ROT_EVNT cfg (replicate (unat (WAIT_ROT_SET cfg) - 1) io) t = 0 \<and>
      rot_expires cfg io (run cfg (replicate (unat (WAIT_ROT_SET cfg) - 1) io) t)) \<and>
   (notifications ROT_EVNT cfg ios s = 0 \<and> rot_expires cfg io' (run cfg ios s) \<longrightarrow>
      notifications ROT_EVNT cfg (ios @ [io']) s = 1 \<and>
      ld rot_cnt (run cfg (ios @ [io']) s) = ld rot_cnt s + of_int (net_rotation cfg ios s))"
proof (intro conjI impI)
  show "if rot_expires cfg io s
    then emitted cfg io s = [St wait_rot_cnt 0, St evnt ROT_EVNT, Wake] \<and>
         sample cfg io = r2 s \<and> ld wait_rot_cnt s = 1 \<and>
         ld wait_rot_cnt (loop_forever cfg io s) = 0 \<and>
         ld rot_cnt (loop_forever cfg io s) = ld rot_cnt s
    else St evnt ROT_EVNT \<notin> set (emitted cfg io s) \<and>
         \<not> notified ROT_EVNT (emitted cfg io s) \<and>
         (if detent_step cfg io s \<noteq> 0
          then emitted cfg io s =
                 [St rot_tmp (rot_code cfg (sample cfg io) (r2 s)),
                  St rot_cnt (ld rot_cnt s + of_int (detent_step cfg io s)),
                  St wait_rot_cnt (WAIT_ROT_SET cfg)] \<and>
               ld wait_rot_cnt (loop_forever cfg io s) = WAIT_ROT_SET cfg
          else ld rot_cnt (loop_forever cfg io s) = ld rot_cnt s)"
  proof (cases "rot_expires cfg io s")
    case True
    then show ?thesis
      using rot_expires_effects [OF True] by (simp add: rot_expires_def)
  next
    case False
    show ?thesis
    proof (cases "detent_step cfg io s = 0")
      case True
      with False show ?thesis
        by (simp add: rot_event_iff ld_rot_cnt_loop_forever)
    next
      case d: False
      with False show ?thesis
        using detent_step_effects [OF d] by (simp add: rot_event_iff notified_def)
    qed
  qed
next
  show "ld wait_rot_cnt (loop_forever cfg io s) =
     (if detent_step cfg io s \<noteq> 0 then WAIT_ROT_SET cfg
      else if sample cfg io = r2 s \<and> ld wait_reed_cnt s = 0 \<and> ld wait_btn_cnt s = 0 \<and>
              ld wait_rot_cnt s \<noteq> 0
      then ld wait_rot_cnt s - 1
      else ld wait_rot_cnt s)"
    by (rule ld_wait_rot_cnt_loop_forever)
next
  assume "sample cfg io = r2 t \<and> ld wait_reed_cnt t = 0 \<and> ld wait_btn_cnt t = 0 \<and>
    ld wait_rot_cnt t = WAIT_ROT_SET cfg \<and> 1 \<le> WAIT_ROT_SET cfg"
  then show "notifications ROT_EVNT cfg (replicate (unat (WAIT_ROT_SET cfg) - 1) io) t = 0"
    "rot_expires cfg io (run cfg (replicate (unat (WAIT_ROT_SET cfg) - 1) io) t)"
    using quiet_until_expiry [of cfg io t] by simp_all
next
  assume "notifications ROT_EVNT cfg ios s = 0 \<and> rot_expires cfg io' (run cfg ios s)"
  then show "notifications ROT_EVNT cfg (ios @ [io']) s = 1"
    "ld rot_cnt (run cfg (ios @ [io']) s) = ld rot_cnt s + of_int (net_rotation cfg ios s)"
    using single_notification [of cfg ios s io'] by simp_all
qed

text \<open>
  The theorem with a rotary wait of 2: a detent step from the start, the expiry two
  unchanged samples later, and two steps before one expiry, which give one notification
  with the counter at 2.
\<close>

theorem rotated_event_at_timer_expiry_witness:
  "detent_step quick_config 0x10 (entry quick_config 0x18) = 1 \<and>
   emitted quick_config 0x10 (entry quick_config 0x18) =
     [St rot_tmp 0x0B, St rot_cnt 1, St wait_rot_cnt 2] \<and>
   sample quick_config 0x10 = r2 (run quick_config [0x10] (entry quick_config 0x18)) \<and>
   ld wait_rot_cnt (run quick_config [0x10] (entry quick_config 0x18)) = WAIT_ROT_SET quick_config \<and>
   notifications ROT_EVNT quick_config [0x10] (run quick_config [0x10] (entry quick_config 0x18)) = 0 \<and>
   rot_expires quick_config 0x10 (run quick_config [0x10, 0x10] (entry quick_config 0x18)) \<and>
   notifications ROT_EVNT quick_config [0x10, 0x18, 0x10, 0x10] (entry quick_config 0x18) = 0 \<and>
   net_rotation quick_config [0x10, 0x18, 0x10, 0x10] (entry quick_config 0x18) = 2 \<and>
   notifications ROT_EVNT quick_config [0x10, 0x18, 0x10, 0x10, 0x10] (entry quick_config 0x18) = 1 \<and>
   ld rot_cnt (run quick_config [0x10, 0x18, 0x10, 0x10, 0x10] (entry quick_config 0x18)) = 2"
proof -
  let ?e = "entry quick_config 0x18"
  let ?t = "run quick_config [0x10] ?e"
  let ?ios = "[0x10, 0x18, 0x10, 0x10] :: u16 list"
  have a: "\<not> rot_expires quick_config 0x10 ?e" "detent_step quick_config 0x10 ?e = 1"
    "rot_code quick_config (sample quick_config 0x10) (r2 ?e) = 0x0B"
    "ld rot_cnt ?e = 0" "WAIT_ROT_SET quick_config = 2"
    by code_simp+
  have b: "sample quick_config 0x10 = r2 ?t" "ld wait_reed_cnt ?t = 0" "ld wait_btn_cnt ?t = 0"
    "ld wait_rot_cnt ?t = WAIT_ROT_SET quick_config" "1 \<le> WAIT_ROT_SET quick_config"
    by code_simp+
  have c: "notifications ROT_EVNT quick_config ?ios ?e = 0"
    "rot_expires quick_config 0x10 (run quick_config ?ios ?e)"
    "net_rotation quick_config ?ios ?e = 2"
    by code_simp+
  have k: "replicate (unat (WAIT_ROT_SET quick_config) - 1) (0x10 :: u16) = [0x10]"
    by code_simp
  note T = rotated_event_at_timer_expiry [of quick_config "0x10" ?e ?t ?ios "0x10"]
  have p: "emitted quick_config 0x10 ?e = [St rot_tmp 0x0B, St rot_cnt 1, St wait_rot_cnt 2]"
    using T [THEN conjunct1] a by simp
  have q: "notifications ROT_EVNT quick_config
             (replicate (unat (WAIT_ROT_SET quick_config) - 1) 0x10) ?t = 0 \<and>
           rot_expires quick_config 0x10
             (run quick_config (replicate (unat (WAIT_ROT_SET quick_config) - 1) 0x10) ?t)"
    using T [THEN conjunct2, THEN conjunct2, THEN conjunct1] b by blast
  have r: "notifications ROT_EVNT quick_config (?ios @ [0x10]) ?e = 1 \<and>
           ld rot_cnt (run quick_config (?ios @ [0x10]) ?e) =
             ld rot_cnt ?e + of_int (net_rotation quick_config ?ios ?e)"
    using T [THEN conjunct2, THEN conjunct2, THEN conjunct2] c by blast
  have q': "notifications ROT_EVNT quick_config [0x10] ?t = 0"
    "rot_expires quick_config 0x10 (run quick_config [0x10, 0x10] ?e)"
    using q unfolding k by simp_all
  have r': "notifications ROT_EVNT quick_config [0x10, 0x18, 0x10, 0x10, 0x10] ?e = 1"
    "ld rot_cnt (run quick_config [0x10, 0x18, 0x10, 0x10, 0x10] ?e) = 2"
    using r unfolding c(3) a(4) by simp_all
  show ?thesis
    using a(2) p b(1,4) q' c(1,3) r' by blast
qed

text \<open>
  Against the reading that the expiry comes \<open>WAIT_ROT_SET\<close> passes after the timer was
  armed: with waits of 2, a button is pressed and then a detent step arms the rotary
  timer while the button timer is waiting. The next two unchanged samples count the
  button timer down and leave the rotary timer at 2; the rotation event comes with the
  fourth unchanged sample.
\<close>

theorem rot_expiry_delayed_counterexample:
  "detent_step quick_config 0x30 (run quick_config [0x38] (entry quick_config 0x18)) = 1 \<and>
   ld wait_rot_cnt (run quick_config [0x38, 0x30] (entry quick_config 0x18)) =
     WAIT_ROT_SET quick_config \<and>
   WAIT_ROT_SET quick_config = 2 \<and>
   sample quick_config 0x30 = r2 (run quick_config [0x38, 0x30] (entry quick_config 0x18)) \<and>
   notifications ROT_EVNT quick_config [0x30, 0x30]
     (run quick_config [0x38, 0x30] (entry quick_config 0x18)) = 0 \<and>
   ld wait_rot_cnt (run quick_config [0x38, 0x30, 0x30, 0x30] (entry quick_config 0x18)) = 2 \<and>
   notifications ROT_EVNT quick_config [0x30, 0x30, 0x30]
     (run quick_config [0x38, 0x30] (entry quick_config 0x18)) = 0 \<and>
   emitted quick_config 0x30
     (run quick_config [0x38, 0x30, 0x30, 0x30, 0x30] (entry quick_config 0x18)) =
     [St wait_rot_cnt 0, St evnt ROT_EVNT, Wake]"
  by code_simp

section \<open>The blocking read\<close>

text \<open>
  C9. When no notification of the engine arrives within the timeout, \<open>key_rot_read\<close>
  returns \<open>ESP_ERR_TIMEOUT\<close>, which is none of the results that carry an event, and the
  shared state (event code, rotation counter, button bitmask) is as before the call.
\<close>

theorem key_rot_read_timeout:
  assumes "\<not> arrives_within arrival timeout"
  shows "key_rot_read shared arrival period timeout = (ESP_ERR_TIMEOUT, shared) \<and>
         (\<forall>ev. ESP_ERR_TIMEOUT \<noteq> ESP_OK ev)"
  using assms by (simp add: key_rot_read_def)

text \<open>
  The theorem on the shared state left by a button press, with a timeout of 100 and no
  notification, and with a notification that comes at time 150.
\<close>

theorem key_rot_read_timeout_witness:
  "\<not> arrives_within None 100 \<and> \<not> arrives_within (Some 150) 100 \<and>
   key_rot_read (mem (run default_config [0x38] (entry default_config 0x18))) None 0 100 =
     (ESP_ERR_TIMEOUT, mem (run default_config [0x38] (entry default_config 0x18))) \<and>
   key_rot_read (mem (run default_config [0x38] (entry default_config 0x18))) (Some 150) 0 100 =
     (ESP_ERR_TIMEOUT, mem (run default_config [0x38] (entry default_config 0x18)))"
proof -
  have h: "\<not> arrives_within None 100" "\<not> arrives_within (Some 150) 100"
    by (simp_all add: arrives_within_def)
  show ?thesis
    using key_rot_read_timeout [OF h(1)] key_rot_read_timeout [OF h(2)] h by blast
qed

end
